theory Spec2Isabelle
  imports Main
begin

section \<open>The geoprocessing script \<open>testtool_ex.py\<close>\<close>

text \<open>
  The script is a straight line of calls into the \<open>arcpy\<close> geoprocessing library:
  two existence checks, each guarding a delete, then a buffer and a clip. The library
  is not part of the repository, so it is a parameter of the model: a record of the
  four operations the script calls, each of which either raises (\<open>Inl\<close>) or returns
  (\<open>Inr\<close>). The geodatabase the operations work on is a map from dataset paths to
  datasets. The value that \<open>arcpy.GetParameterAsText(0)\<close> hands to the script on
  line 21 is the argument \<open>inputdata\<close> of the model.
\<close>

subsection \<open>Data model\<close>

type_synonym path = string

type_synonym 'd gdb = "path \<rightharpoonup> 'd"

text \<open>The external operations, as the script can issue them (name and arguments).\<close>

datatype call =
    CExists path
  | CDelete path string
  | CBuffer path path string string string string string string
  | CClip path path path string

text \<open>
  The library: \<open>'d\<close> is the type of datasets, \<open>'e\<close> the type of the errors the
  library raises. An existence check reads the geodatabase; the other three return
  the geodatabase they leave behind.
\<close>

record ('d, 'e) arcpy =
  lib_exists :: "path \<Rightarrow> 'd gdb \<Rightarrow> 'e + bool"
  lib_delete :: "path \<Rightarrow> string \<Rightarrow> 'd gdb \<Rightarrow> 'e + 'd gdb"
  lib_buffer :: "path \<Rightarrow> path \<Rightarrow> string \<Rightarrow> string \<Rightarrow> string \<Rightarrow> string \<Rightarrow> string \<Rightarrow> string
                  \<Rightarrow> 'd gdb \<Rightarrow> 'e + 'd gdb"
  lib_clip :: "path \<Rightarrow> path \<Rightarrow> path \<Rightarrow> string \<Rightarrow> 'd gdb \<Rightarrow> 'e + 'd gdb"

text \<open>
  A piece of script run from a geodatabase yields the calls it issued, each with the
  geodatabase it was issued on, in order, and either the error that ended it or its
  value and the geodatabase it left.
\<close>

type_synonym ('d, 'e, 'a) prog = "'d gdb \<Rightarrow> (call \<times> 'd gdb) list \<times> ('e + 'a \<times> 'd gdb)"

text \<open>Sequencing: a Python exception in the first part ends the run there.\<close>

definition and_then :: "('d, 'e, 'a) prog \<Rightarrow> ('a \<Rightarrow> ('d, 'e, 'b) prog) \<Rightarrow> ('d, 'e, 'b) prog" where
  "and_then m f = (\<lambda>s.
     case m s of
       (l, Inl e) \<Rightarrow> (l, Inl e)
     | (l, Inr (a, s')) \<Rightarrow> (case f a s' of (l', r) \<Rightarrow> (l @ l', r)))"

definition skip :: "('d, 'e, unit) prog" where
  "skip = (\<lambda>s. ([], Inr ((), s)))"

subsection \<open>The four library calls\<close>

definition Exists :: "('d, 'e) arcpy \<Rightarrow> path \<Rightarrow> ('d, 'e, bool) prog" where
  "Exists L p = (\<lambda>s.
     ([(CExists p, s)],
      case lib_exists L p s of Inl e \<Rightarrow> Inl e | Inr b \<Rightarrow> Inr (b, s)))"

definition Delete_management :: "('d, 'e) arcpy \<Rightarrow> path \<Rightarrow> string \<Rightarrow> ('d, 'e, unit) prog" where
  "Delete_management L p k = (\<lambda>s.
     ([(CDelete p k, s)],
      case lib_delete L p k s of Inl e \<Rightarrow> Inl e | Inr s' \<Rightarrow> Inr ((), s')))"

definition Buffer_analysis ::
  "('d, 'e) arcpy \<Rightarrow> path \<Rightarrow> path \<Rightarrow> string \<Rightarrow> string \<Rightarrow> string \<Rightarrow> string \<Rightarrow> string \<Rightarrow> string
     \<Rightarrow> ('d, 'e, unit) prog" where
  "Buffer_analysis L i out dist side cap dis fld meth = (\<lambda>s.
     ([(CBuffer i out dist side cap dis fld meth, s)],
      case lib_buffer L i out dist side cap dis fld meth s of
        Inl e \<Rightarrow> Inl e | Inr s' \<Rightarrow> Inr ((), s')))"

definition Clip_analysis ::
  "('d, 'e) arcpy \<Rightarrow> path \<Rightarrow> path \<Rightarrow> path \<Rightarrow> string \<Rightarrow> ('d, 'e, unit) prog" where
  "Clip_analysis L i c out tol = (\<lambda>s.
     ([(CClip i c out tol, s)],
      case lib_clip L i c out tol s of Inl e \<Rightarrow> Inl e | Inr s' \<Rightarrow> Inr ((), s')))"

subsection \<open>The script\<close>

text \<open>
  Lines 13 to 19: the local variables. The two \<open>Delete_succeeded\<close> variables are
  assigned and never read (the second is \<open>Delete_succeeded__2_\<close> in the source).
\<close>

definition tracts :: path where
  "tracts = ''tabletesting.gdb/tracts''"

definition major_roads :: path where
  "major_roads = ''tabletesting.gdb/major_roads''"

definition major_roads_Buffer :: path where
  "major_roads_Buffer = ''tabletesting.gdb/major_roads_Buffer''"

definition tracts_Clip :: path where
  "tracts_Clip = ''tabletesting.gdb/tracts_Clip''"

definition Delete_succeeded :: string where
  "Delete_succeeded = ''false''"

definition Delete_succeeded__2 :: string where
  "Delete_succeeded__2 = ''false''"

text \<open>
  Lines 23 to 25, and again 26 to 28: an existence check guarding a delete. Lines 23
  to 28 are two of them, one for each output.
\<close>

definition guarded_delete :: "('d, 'e) arcpy \<Rightarrow> path \<Rightarrow> ('d, 'e, unit) prog" where
  "guarded_delete L p =
     and_then (Exists L p) (\<lambda>b.
     if b then Delete_management L p ''FeatureClass'' else skip)"

definition remove_stale :: "('d, 'e) arcpy \<Rightarrow> ('d, 'e, unit) prog" where
  "remove_stale L =
     and_then (guarded_delete L major_roads_Buffer) (\<lambda>_.
     guarded_delete L tracts_Clip)"

text \<open>Lines 23 to 34: the whole run, for the parameter value \<open>inputdata\<close>.\<close>

definition script :: "('d, 'e) arcpy \<Rightarrow> string \<Rightarrow> ('d, 'e, unit) prog" where
  "script L inputdata =
     and_then (Exists L major_roads_Buffer) (\<lambda>b1.
     and_then (if b1 then Delete_management L major_roads_Buffer ''FeatureClass'' else skip) (\<lambda>_.
     and_then (Exists L tracts_Clip) (\<lambda>b2.
     and_then (if b2 then Delete_management L tracts_Clip ''FeatureClass'' else skip) (\<lambda>_.
     and_then (Buffer_analysis L major_roads major_roads_Buffer (inputdata @ '' Miles'')
                 ''FULL'' ''ROUND'' ''ALL'' '''' ''PLANAR'') (\<lambda>_.
     Clip_analysis L tracts major_roads_Buffer tracts_Clip '''')))))"

subsection \<open>Reading a run\<close>

text \<open>
  What the library answers to a call issued on a geodatabase: the error it raises, if
  it raises one.
\<close>

fun failure :: "('d, 'e) arcpy \<Rightarrow> call \<Rightarrow> 'd gdb \<Rightarrow> 'e option" where
  "failure L (CExists p) s = (case lib_exists L p s of Inl e \<Rightarrow> Some e | Inr _ \<Rightarrow> None)"
| "failure L (CDelete p k) s = (case lib_delete L p k s of Inl e \<Rightarrow> Some e | Inr _ \<Rightarrow> None)"
| "failure L (CBuffer i out dist side cap dis fld meth) s =
     (case lib_buffer L i out dist side cap dis fld meth s of Inl e \<Rightarrow> Some e | Inr _ \<Rightarrow> None)"
| "failure L (CClip i c out tol) s =
     (case lib_clip L i c out tol s of Inl e \<Rightarrow> Some e | Inr _ \<Rightarrow> None)"

text \<open>A log in which no call failed, and a run that stopped at its first failure.\<close>

definition clean :: "('d, 'e) arcpy \<Rightarrow> (call \<times> 'd gdb) list \<Rightarrow> bool" where
  "clean L l = (\<forall>(c, st) \<in> set l. failure L c st = None)"

definition stops_at_failure ::
  "('d, 'e) arcpy \<Rightarrow> (call \<times> 'd gdb) list \<times> ('e + 'a \<times> 'd gdb) \<Rightarrow> bool" where
  "stops_at_failure L r =
     (case snd r of
        Inr _ \<Rightarrow> clean L (fst r)
      | Inl e \<Rightarrow> (\<exists>l' c st. fst r = l' @ [(c, st)] \<and> clean L l' \<and> failure L c st = Some e))"

text \<open>Which calls are buffer calls; the dataset a call creates; the dataset it changes.\<close>

fun is_buffer :: "call \<Rightarrow> bool" where
  "is_buffer (CBuffer i out dist side cap dis fld meth) = True"
| "is_buffer _ = False"

fun creates :: "call \<Rightarrow> path option" where
  "creates (CBuffer i out dist side cap dis fld meth) = Some out"
| "creates (CClip i c out tol) = Some out"
| "creates _ = None"

fun mutates :: "call \<Rightarrow> path option" where
  "mutates (CExists p) = None"
| "mutates (CDelete p k) = Some p"
| "mutates (CBuffer i out dist side cap dis fld meth) = Some out"
| "mutates (CClip i c out tol) = Some out"

text \<open>Every dataset identifier a call names, and a call with its distance expression blanked.\<close>

fun paths_of :: "call \<Rightarrow> path list" where
  "paths_of (CExists p) = [p]"
| "paths_of (CDelete p k) = [p]"
| "paths_of (CBuffer i out dist side cap dis fld meth) = [i, out]"
| "paths_of (CClip i c out tol) = [i, c, out]"

fun erase_distance :: "call \<Rightarrow> call" where
  "erase_distance (CBuffer i out dist side cap dis fld meth) = CBuffer i out [] side cap dis fld meth"
| "erase_distance c = c"

text \<open>
  The sequence of calls of a run in which nothing fails, given what the two existence
  checks answered.
\<close>

definition expected_calls :: "bool \<Rightarrow> bool \<Rightarrow> string \<Rightarrow> call list" where
  "expected_calls b1 b2 inputdata =
     [CExists major_roads_Buffer]
     @ (if b1 then [CDelete major_roads_Buffer ''FeatureClass''] else [])
     @ [CExists tracts_Clip]
     @ (if b2 then [CDelete tracts_Clip ''FeatureClass''] else [])
     @ [CBuffer major_roads major_roads_Buffer (inputdata @ '' Miles'')
          ''FULL'' ''ROUND'' ''ALL'' '''' ''PLANAR'',
        CClip tracts major_roads_Buffer tracts_Clip '''']"

subsection \<open>What the library promises\<close>

text \<open>
  The claims about the contents of the geodatabase rest on what the four operations
  mean. Each promise is a predicate on the library, and a theorem assumes only those
  it needs: an existence check that returns tells the truth; a delete that returns has
  removed exactly the dataset it names; a buffer or a clip that returns has changed
  only its output; and, for a buffer function \<open>buf\<close> and a clip function \<open>clp\<close> on
  datasets, a buffer (clip) that returns has stored \<open>buf\<close> (\<open>clp\<close>) of its inputs in
  its output.
\<close>

definition exists_sound :: "('d, 'e) arcpy \<Rightarrow> bool" where
  "exists_sound L = (\<forall>p s b. lib_exists L p s = Inr b \<longrightarrow> b = (p \<in> dom s))"

definition delete_sound :: "('d, 'e) arcpy \<Rightarrow> bool" where
  "delete_sound L = (\<forall>p k s s'. lib_delete L p k s = Inr s' \<longrightarrow> s' = s(p := None))"

definition buffer_frame :: "('d, 'e) arcpy \<Rightarrow> bool" where
  "buffer_frame L =
     (\<forall>i out dist side cap dis fld meth s s'.
        lib_buffer L i out dist side cap dis fld meth s = Inr s' \<longrightarrow>
        (\<forall>q. q \<noteq> out \<longrightarrow> s' q = s q))"

definition clip_frame :: "('d, 'e) arcpy \<Rightarrow> bool" where
  "clip_frame L =
     (\<forall>i c out tol s s'.
        lib_clip L i c out tol s = Inr s' \<longrightarrow> (\<forall>q. q \<noteq> out \<longrightarrow> s' q = s q))"

definition buffer_computes ::
  "('d, 'e) arcpy \<Rightarrow> ('d \<Rightarrow> string \<Rightarrow> string \<Rightarrow> string \<Rightarrow> string \<Rightarrow> string \<Rightarrow> string \<Rightarrow> 'd) \<Rightarrow> bool" where
  "buffer_computes L buf =
     (\<forall>i out dist side cap dis fld meth s s'.
        lib_buffer L i out dist side cap dis fld meth s = Inr s' \<longrightarrow>
        (\<exists>d. s i = Some d \<and> s' = s(out \<mapsto> buf d dist side cap dis fld meth)))"

definition clip_computes :: "('d, 'e) arcpy \<Rightarrow> ('d \<Rightarrow> 'd \<Rightarrow> string \<Rightarrow> 'd) \<Rightarrow> bool" where
  "clip_computes L clp =
     (\<forall>i c out tol s s'.
        lib_clip L i c out tol s = Inr s' \<longrightarrow>
        (\<exists>a b. s i = Some a \<and> s c = Some b \<and> s' = s(out \<mapsto> clp a b tol)))"

subsection \<open>A library to run the script on\<close>

text \<open>
  Modelled from the spec: the \<open>arcpy\<close> library itself is not in the repository. This
  instance follows the operation surface the spec lists (\<open>exists\<close>, \<open>delete\<close>,
  \<open>buffer\<close>, \<open>clip\<close>) and the failures it names (a missing dataset, an output that
  is already there, a malformed distance string). Datasets are symbolic: a layer, the
  buffer of a dataset, the clip of one dataset by another. It serves only to run the
  script on concrete inputs; the theorems below hold for every library.
\<close>

datatype geom =
    Layer string
  | Buffered geom string string string string string string
  | Clipped geom geom string

definition valid_distance :: "string \<Rightarrow> bool" where
  "valid_distance dist = (case dist of [] \<Rightarrow> False | c # _ \<Rightarrow> c \<in> set ''0123456789'')"

definition sample_lib :: "(geom, string) arcpy" where
  "sample_lib = \<lparr>
     lib_exists = (\<lambda>p s. Inr (s p \<noteq> None)),
     lib_delete = (\<lambda>p k s.
       if s p = None then Inl ''no such dataset'' else Inr (s(p := None))),
     lib_buffer = (\<lambda>i out dist side cap dis fld meth s.
       case s i of
         None \<Rightarrow> Inl ''no such dataset''
       | Some d \<Rightarrow>
           if s out \<noteq> None then Inl ''output already exists''
           else if \<not> valid_distance dist then Inl ''malformed distance''
           else Inr (s(out \<mapsto> Buffered d dist side cap dis fld meth))),
     lib_clip = (\<lambda>i c out tol s.
       case s i of
         None \<Rightarrow> Inl ''no such dataset''
       | Some a \<Rightarrow>
           (case s c of
              None \<Rightarrow> Inl ''no such dataset''
            | Some b \<Rightarrow>
                if s out \<noteq> None then Inl ''output already exists''
                else Inr (s(out \<mapsto> Clipped a b tol))))
   \<rparr>"

text \<open>A geodatabase holding the two inputs only, and one holding stale outputs as well.\<close>

definition fresh_gdb :: "geom gdb" where
  "fresh_gdb = [tracts \<mapsto> Layer ''tracts'', major_roads \<mapsto> Layer ''major_roads'']"

definition stale_gdb :: "geom gdb" where
  "stale_gdb = fresh_gdb(major_roads_Buffer \<mapsto> Layer ''old buffer'', tracts_Clip \<mapsto> Layer ''old clip'')"

section \<open>Properties of the script\<close>

subsection \<open>Auxiliary facts\<close>

lemmas prog_defs = and_then_def skip_def Exists_def Delete_management_def
  Buffer_analysis_def Clip_analysis_def

lemmas path_defs = tracts_def major_roads_def major_roads_Buffer_def tracts_Clip_def

lemma paths_distinct:
  "tracts \<noteq> major_roads" "tracts \<noteq> major_roads_Buffer" "tracts \<noteq> tracts_Clip"
  "major_roads \<noteq> major_roads_Buffer" "major_roads \<noteq> tracts_Clip"
  "major_roads_Buffer \<noteq> tracts_Clip"
  by (simp_all add: path_defs)

lemma exists_soundD: "exists_sound L \<Longrightarrow> lib_exists L p s = Inr b \<Longrightarrow> b = (p \<in> dom s)"
  by (simp add: exists_sound_def)

lemma delete_soundD: "delete_sound L \<Longrightarrow> lib_delete L p k s = Inr s' \<Longrightarrow> s' = s(p := None)"
  by (simp add: delete_sound_def)

lemma buffer_frameD:
  "buffer_frame L \<Longrightarrow> lib_buffer L i out dist side cap dis fld meth s = Inr s' \<Longrightarrow> q \<noteq> out
     \<Longrightarrow> s' q = s q"
  unfolding buffer_frame_def by blast

lemma clip_frameD:
  "clip_frame L \<Longrightarrow> lib_clip L i c out tol s = Inr s' \<Longrightarrow> q \<noteq> out \<Longrightarrow> s' q = s q"
  unfolding clip_frame_def by blast

lemma unset_absent: "p \<notin> dom s \<Longrightarrow> s(p := None) = s"
  by (auto simp: fun_eq_iff domIff)

lemma fst_and_then:
  "fst (and_then m f s) =
     fst (m s) @ (case snd (m s) of Inl e \<Rightarrow> [] | Inr (a, s') \<Rightarrow> fst (f a s'))"
  by (simp add: and_then_def split: prod.splits sum.splits)

lemma snd_and_then:
  "snd (and_then m f s) =
     (case snd (m s) of Inl e \<Rightarrow> Inl e | Inr (a, s') \<Rightarrow> snd (f a s'))"
  by (simp add: and_then_def split: prod.splits sum.splits)

lemma and_then_assoc:
  "and_then (and_then m f) g = and_then m (\<lambda>a. and_then (f a) g)"
  by (rule ext) (simp add: and_then_def split: prod.splits sum.splits)

lemma script_split:
  "script L x = and_then (remove_stale L) (\<lambda>_.
     and_then (Buffer_analysis L major_roads major_roads_Buffer (x @ '' Miles'')
                 ''FULL'' ''ROUND'' ''ALL'' '''' ''PLANAR'') (\<lambda>_.
     Clip_analysis L tracts major_roads_Buffer tracts_Clip ''''))"
  by (simp add: script_def remove_stale_def guarded_delete_def and_then_assoc)

lemma guarded_delete_run:
  "guarded_delete L p s =
     (case lib_exists L p s of
        Inl e \<Rightarrow> ([(CExists p, s)], Inl e)
      | Inr b \<Rightarrow>
          if b then ([(CExists p, s), (CDelete p ''FeatureClass'', s)],
                     case lib_delete L p ''FeatureClass'' s of
                       Inl e \<Rightarrow> Inl e | Inr s' \<Rightarrow> Inr ((), s'))
          else ([(CExists p, s)], Inr ((), s)))"
  by (simp add: guarded_delete_def prog_defs split: sum.splits)

lemma guarded_delete_success:
  assumes "snd (guarded_delete L p s) = Inr (u, g)"
  shows "\<exists>b. lib_exists L p s = Inr b
            \<and> (if b then lib_delete L p ''FeatureClass'' s = Inr g else g = s)
            \<and> fst (guarded_delete L p s) =
                (CExists p, s) # (if b then [(CDelete p ''FeatureClass'', s)] else [])"
  using assms by (auto simp: guarded_delete_run split: sum.splits if_splits)

lemma guarded_delete_log:
  "(c, st) \<in> set (fst (guarded_delete L p s)) \<Longrightarrow>
     st = s \<and> (c = CExists p \<or> c = CDelete p ''FeatureClass'')"
  by (auto simp: guarded_delete_run split: sum.splits if_splits)

lemma guarded_delete_absent:
  assumes "exists_sound L" "delete_sound L" "snd (guarded_delete L p s) = Inr (u, g)"
  shows "g = s(p := None)"
proof -
  from guarded_delete_success[OF assms(3)] obtain b where
    e: "lib_exists L p s = Inr b" and
    d: "if b then lib_delete L p ''FeatureClass'' s = Inr g else g = s"
    by blast
  show ?thesis
  proof (cases b)
    case True
    with d assms(2) show ?thesis by (simp add: delete_soundD)
  next
    case False
    with exists_soundD[OF assms(1) e] have "p \<notin> dom s" by simp
    with False d show ?thesis by (simp add: unset_absent)
  qed
qed

lemma guarded_delete_frame:
  assumes "delete_sound L" "snd (guarded_delete L p s) = Inr (u, g)" "q \<noteq> p"
  shows "g q = s q"
proof -
  from guarded_delete_success[OF assms(2)] obtain b where
    d: "if b then lib_delete L p ''FeatureClass'' s = Inr g else g = s"
    by blast
  show ?thesis
  proof (cases b)
    case True
    with d assms(1) have "g = s(p := None)" by (simp add: delete_soundD)
    with assms(3) show ?thesis by simp
  next
    case False
    with d show ?thesis by simp
  qed
qed

lemma remove_stale_success:
  assumes "snd (remove_stale L s) = Inr (u, g)"
  shows "\<exists>g1. snd (guarded_delete L major_roads_Buffer s) = Inr ((), g1)
             \<and> snd (guarded_delete L tracts_Clip g1) = Inr ((), g)
             \<and> fst (remove_stale L s) =
                 fst (guarded_delete L major_roads_Buffer s) @ fst (guarded_delete L tracts_Clip g1)"
  using assms
  by (auto simp: remove_stale_def fst_and_then snd_and_then split: sum.splits)

lemma remove_stale_log:
  assumes "(c, st) \<in> set (fst (remove_stale L s))"
  shows "(st = s \<and> (c = CExists major_roads_Buffer \<or> c = CDelete major_roads_Buffer ''FeatureClass''))
       \<or> (snd (guarded_delete L major_roads_Buffer s) = Inr ((), st)
            \<and> (c = CExists tracts_Clip \<or> c = CDelete tracts_Clip ''FeatureClass''))"
  using assms
  by (auto simp: remove_stale_def fst_and_then split: sum.splits dest: guarded_delete_log)

lemma remove_stale_result:
  assumes "exists_sound L" "delete_sound L" "snd (remove_stale L s) = Inr (u, g)"
  shows "g = s(major_roads_Buffer := None, tracts_Clip := None)"
proof -
  from remove_stale_success[OF assms(3)] obtain g1 where
    "snd (guarded_delete L major_roads_Buffer s) = Inr ((), g1)"
    "snd (guarded_delete L tracts_Clip g1) = Inr ((), g)"
    by blast
  then show ?thesis
    using guarded_delete_absent[OF assms(1,2)] by blast
qed

lemma script_log:
  "fst (script L x s) =
     fst (remove_stale L s) @
     (case snd (remove_stale L s) of
        Inl e \<Rightarrow> []
      | Inr (u, g) \<Rightarrow>
          (CBuffer major_roads major_roads_Buffer (x @ '' Miles'')
             ''FULL'' ''ROUND'' ''ALL'' '''' ''PLANAR'', g) #
          (case lib_buffer L major_roads major_roads_Buffer (x @ '' Miles'')
                  ''FULL'' ''ROUND'' ''ALL'' '''' ''PLANAR'' g of
             Inl e \<Rightarrow> []
           | Inr g' \<Rightarrow> [(CClip tracts major_roads_Buffer tracts_Clip '''', g')]))"
  unfolding script_split fst_and_then
  by (simp add: Buffer_analysis_def Clip_analysis_def split: sum.splits prod.splits)

lemma script_result:
  "snd (script L x s) =
     (case snd (remove_stale L s) of
        Inl e \<Rightarrow> Inl e
      | Inr (u, g) \<Rightarrow>
          (case lib_buffer L major_roads major_roads_Buffer (x @ '' Miles'')
                  ''FULL'' ''ROUND'' ''ALL'' '''' ''PLANAR'' g of
             Inl e \<Rightarrow> Inl e
           | Inr g' \<Rightarrow>
               (case lib_clip L tracts major_roads_Buffer tracts_Clip '''' g' of
                  Inl e \<Rightarrow> Inl e
                | Inr s' \<Rightarrow> Inr ((), s'))))"
  unfolding script_split snd_and_then
  by (simp add: Buffer_analysis_def Clip_analysis_def split: sum.splits prod.splits)

lemma stops_and_then:
  assumes "\<And>s. stops_at_failure L (m s)" and "\<And>a s. stops_at_failure L (f a s)"
  shows "stops_at_failure L (and_then m f s)"
proof (cases "m s")
  case (Pair l r)
  show ?thesis
  proof (cases r)
    case (Inl e)
    with Pair assms(1)[of s] show ?thesis
      by (simp add: and_then_def stops_at_failure_def)
  next
    case (Inr v)
    obtain a s' where v: "v = (a, s')" by (cases v)
    obtain l' r' where f: "f a s' = (l', r')" by (cases "f a s'")
    from Pair Inr assms(1)[of s] have cl: "clean L l"
      by (simp add: stops_at_failure_def)
    from assms(2)[of a s'] f have r': "stops_at_failure L (l', r')" by simp
    have run: "and_then m f s = (l @ l', r')"
      using Pair Inr v f by (simp add: and_then_def)
    show ?thesis
    proof (cases r')
      case (Inl e)
      with r' obtain l'' c st where "l' = l'' @ [(c, st)]" "clean L l''" "failure L c st = Some e"
        by (auto simp: stops_at_failure_def)
      with cl have "l @ l' = (l @ l'') @ [(c, st)] \<and> clean L (l @ l'') \<and> failure L c st = Some e"
        by (auto simp: clean_def)
      with run Inl show ?thesis
        unfolding stops_at_failure_def by (simp del: append_assoc)
    next
      case (Inr w)
      with r' cl run show ?thesis
        by (auto simp: stops_at_failure_def clean_def)
    qed
  qed
qed

lemma stops_prims:
  "stops_at_failure L (Exists L p s)"
  "stops_at_failure L (Delete_management L p k s)"
  "stops_at_failure L (Buffer_analysis L i out dist side cap dis fld meth s)"
  "stops_at_failure L (Clip_analysis L i c out tol s)"
  "stops_at_failure L (skip s)"
  by (auto simp: stops_at_failure_def clean_def prog_defs split: sum.splits)

lemma stops_script: "stops_at_failure L (script L x s)"
  unfolding script_def
  by (intro stops_and_then stops_prims) (simp_all add: stops_prims)

lemma script_success:
  assumes "snd (script L x s) = Inr (u, s')"
  shows "\<exists>g g'. snd (remove_stale L s) = Inr ((), g)
           \<and> lib_buffer L major_roads major_roads_Buffer (x @ '' Miles'')
                ''FULL'' ''ROUND'' ''ALL'' '''' ''PLANAR'' g = Inr g'
           \<and> lib_clip L tracts major_roads_Buffer tracts_Clip '''' g' = Inr s'"
  using assms by (auto simp: script_result split: sum.splits)

lemma script_log_cases:
  assumes "(c, st) \<in> set (fst (script L x s))"
  obtains
    (stale) "(c, st) \<in> set (fst (remove_stale L s))"
  | (buf) "snd (remove_stale L s) = Inr ((), st)"
      "c = CBuffer major_roads major_roads_Buffer (x @ '' Miles'')
             ''FULL'' ''ROUND'' ''ALL'' '''' ''PLANAR''"
  | (clip) g where "snd (remove_stale L s) = Inr ((), g)"
      "lib_buffer L major_roads major_roads_Buffer (x @ '' Miles'')
         ''FULL'' ''ROUND'' ''ALL'' '''' ''PLANAR'' g = Inr st"
      "c = CClip tracts major_roads_Buffer tracts_Clip ''''"
proof (cases "snd (remove_stale L s)")
  case (Inl e)
  with assms have "(c, st) \<in> set (fst (remove_stale L s))" by (simp add: script_log)
  then show ?thesis by (rule stale)
next
  case (Inr v)
  obtain g where v: "v = ((), g)" by (cases v) simp
  show ?thesis
  proof (cases "lib_buffer L major_roads major_roads_Buffer (x @ '' Miles'')
                  ''FULL'' ''ROUND'' ''ALL'' '''' ''PLANAR'' g")
    case (Inl e)
    with assms Inr v have "(c, st) \<in> set (fst (remove_stale L s))
        \<or> (c, st) = (CBuffer major_roads major_roads_Buffer (x @ '' Miles'')
             ''FULL'' ''ROUND'' ''ALL'' '''' ''PLANAR'', g)"
      by (auto simp: script_log)
    with Inr v stale buf show ?thesis by auto
  next
    case b: (Inr g')
    with assms Inr v have "(c, st) \<in> set (fst (remove_stale L s))
        \<or> (c, st) = (CBuffer major_roads major_roads_Buffer (x @ '' Miles'')
             ''FULL'' ''ROUND'' ''ALL'' '''' ''PLANAR'', g)
        \<or> (c, st) = (CClip tracts major_roads_Buffer tracts_Clip '''', g')"
      by (auto simp: script_log)
    with Inr v b stale buf clip show ?thesis by auto
  qed
qed

lemma remove_stale_frame:
  assumes "delete_sound L" "snd (remove_stale L s) = Inr (u, g)"
    "q \<noteq> major_roads_Buffer" "q \<noteq> tracts_Clip"
  shows "g q = s q"
proof -
  from remove_stale_success[OF assms(2)] obtain g1 where
    "snd (guarded_delete L major_roads_Buffer s) = Inr ((), g1)"
    "snd (guarded_delete L tracts_Clip g1) = Inr ((), g)"
    by blast
  then show ?thesis
    using guarded_delete_frame[OF assms(1)] assms(3,4) by metis
qed

lemma remove_stale_log_frame:
  assumes "delete_sound L" "(c, st) \<in> set (fst (remove_stale L s))"
    "q \<noteq> major_roads_Buffer" "q \<noteq> tracts_Clip"
  shows "st q = s q"
  using remove_stale_log[OF assms(2)] guarded_delete_frame[OF assms(1)] assms(3,4)
  by metis

lemma script_frame:
  assumes "delete_sound L" "buffer_frame L" "clip_frame L"
    "q \<noteq> major_roads_Buffer" "q \<noteq> tracts_Clip"
  shows "(\<forall>c st. (c, st) \<in> set (fst (script L x s)) \<longrightarrow> st q = s q)
       \<and> (\<forall>u s'. snd (script L x s) = Inr (u, s') \<longrightarrow> s' q = s q)"
proof -
  have log: "st q = s q" if "(c, st) \<in> set (fst (script L x s))" for c st
    using that
  proof (cases rule: script_log_cases)
    case stale
    then show ?thesis by (rule remove_stale_log_frame[OF assms(1) _ assms(4,5)])
  next
    case buf
    from remove_stale_frame[OF assms(1) buf(1) assms(4,5)] show ?thesis .
  next
    case (clip g)
    from buffer_frameD[OF assms(2) clip(2) assms(4)]
      remove_stale_frame[OF assms(1) clip(1) assms(4,5)]
    show ?thesis by simp
  qed
  have final: "s' q = s q" if "snd (script L x s) = Inr (u, s')" for u s'
  proof -
    from script_success[OF that] obtain g g' where
      rs: "snd (remove_stale L s) = Inr ((), g)" and
      b: "lib_buffer L major_roads major_roads_Buffer (x @ '' Miles'')
            ''FULL'' ''ROUND'' ''ALL'' '''' ''PLANAR'' g = Inr g'" and
      c: "lib_clip L tracts major_roads_Buffer tracts_Clip '''' g' = Inr s'"
      by blast
    from clip_frameD[OF assms(3) c assms(5)] buffer_frameD[OF assms(2) b assms(4)]
      remove_stale_frame[OF assms(1) rs assms(4,5)]
    show ?thesis by simp
  qed
  from log final show ?thesis by blast
qed

lemma script_calls:
  assumes "(c, st) \<in> set (fst (script L x s))"
  shows "c \<in> {CExists major_roads_Buffer, CDelete major_roads_Buffer ''FeatureClass'',
              CExists tracts_Clip, CDelete tracts_Clip ''FeatureClass'',
              CBuffer major_roads major_roads_Buffer (x @ '' Miles'')
                ''FULL'' ''ROUND'' ''ALL'' '''' ''PLANAR'',
              CClip tracts major_roads_Buffer tracts_Clip ''''}"
  using assms
proof (cases rule: script_log_cases)
  case stale
  from remove_stale_log[OF this] show ?thesis by auto
qed simp_all

lemma sample_exists_sound: "exists_sound sample_lib"
  by (auto simp: exists_sound_def sample_lib_def)

lemma sample_delete_sound: "delete_sound sample_lib"
  by (auto simp: delete_sound_def sample_lib_def split: if_splits)

lemma sample_buffer_computes: "buffer_computes sample_lib Buffered"
  by (auto simp: buffer_computes_def sample_lib_def split: option.splits if_splits)

lemma sample_clip_computes: "clip_computes sample_lib Clipped"
  by (auto simp: clip_computes_def sample_lib_def split: option.splits if_splits)

lemma sample_buffer_frame: "buffer_frame sample_lib"
  by (auto simp: buffer_frame_def sample_lib_def split: option.splits if_splits)

lemma sample_clip_frame: "clip_frame sample_lib"
  by (auto simp: clip_frame_def sample_lib_def split: option.splits if_splits)

lemmas paths_neq = paths_distinct paths_distinct[symmetric]

lemma fresh_gdb_lookup:
  "fresh_gdb tracts = Some (Layer ''tracts'')"
  "fresh_gdb major_roads = Some (Layer ''major_roads'')"
  "fresh_gdb major_roads_Buffer = None"
  "fresh_gdb tracts_Clip = None"
  by (simp_all add: fresh_gdb_def paths_neq)

lemma stale_gdb_lookup:
  "stale_gdb tracts = Some (Layer ''tracts'')"
  "stale_gdb major_roads = Some (Layer ''major_roads'')"
  "stale_gdb major_roads_Buffer = Some (Layer ''old buffer'')"
  "stale_gdb tracts_Clip = Some (Layer ''old clip'')"
  by (simp_all add: stale_gdb_def fresh_gdb_lookup paths_neq)

lemmas run_simps = script_def remove_stale_def guarded_delete_def prog_defs sample_lib_def
  valid_distance_def paths_neq fresh_gdb_lookup stale_gdb_lookup

lemma guarded_delete_calls:
  "map fst (fst (guarded_delete L p s)) =
     CExists p # (if lib_exists L p s = Inr True then [CDelete p ''FeatureClass''] else [])"
  by (simp add: guarded_delete_run split: sum.splits)

subsection \<open>The claims\<close>

text \<open>
  Claim C1. In a run that completes, the calls issued are exactly: the existence check
  of \<open>major_roads_Buffer\<close>, its delete when the check answered true, the existence
  check of \<open>tracts_Clip\<close>, its delete when that check answered true, the buffer of
  \<open>major_roads\<close> into \<open>major_roads_Buffer\<close>, the clip of \<open>tracts\<close> by
  \<open>major_roads_Buffer\<close> into \<open>tracts_Clip\<close>. In every run, completed or not, the
  calls issued are an initial part of such a sequence, so no other call is ever issued.
\<close>

theorem c1_call_sequence:
  "(\<forall>u s'. snd (script L x s) = Inr (u, s') \<longrightarrow>
      (\<exists>b1 b2 g1. lib_exists L major_roads_Buffer s = Inr b1
         \<and> lib_exists L tracts_Clip g1 = Inr b2
         \<and> (CExists tracts_Clip, g1) \<in> set (fst (script L x s))
         \<and> map fst (fst (script L x s)) = expected_calls b1 b2 x))
   \<and> (\<exists>b1 b2 rest. expected_calls b1 b2 x = map fst (fst (script L x s)) @ rest)"
proof -
  have complete: "\<exists>b1 b2 g1. lib_exists L major_roads_Buffer s = Inr b1
         \<and> lib_exists L tracts_Clip g1 = Inr b2
         \<and> (CExists tracts_Clip, g1) \<in> set (fst (script L x s))
         \<and> map fst (fst (script L x s)) = expected_calls b1 b2 x"
    if run: "snd (script L x s) = Inr (u, s')" for u s'
  proof -
    from script_success[OF run] obtain g g' where
      rs: "snd (remove_stale L s) = Inr ((), g)" and
      b: "lib_buffer L major_roads major_roads_Buffer (x @ '' Miles'')
            ''FULL'' ''ROUND'' ''ALL'' '''' ''PLANAR'' g = Inr g'"
      by blast
    from remove_stale_success[OF rs] obtain g1 where
      d1: "snd (guarded_delete L major_roads_Buffer s) = Inr ((), g1)" and
      d2: "snd (guarded_delete L tracts_Clip g1) = Inr ((), g)" and
      l: "fst (remove_stale L s) =
            fst (guarded_delete L major_roads_Buffer s) @ fst (guarded_delete L tracts_Clip g1)"
      by blast
    from guarded_delete_success[OF d1] obtain b1 where
      e1: "lib_exists L major_roads_Buffer s = Inr b1" and
      l1: "fst (guarded_delete L major_roads_Buffer s) =
             (CExists major_roads_Buffer, s) #
             (if b1 then [(CDelete major_roads_Buffer ''FeatureClass'', s)] else [])"
      by blast
    from guarded_delete_success[OF d2] obtain b2 where
      e2: "lib_exists L tracts_Clip g1 = Inr b2" and
      l2: "fst (guarded_delete L tracts_Clip g1) =
             (CExists tracts_Clip, g1) #
             (if b2 then [(CDelete tracts_Clip ''FeatureClass'', g1)] else [])"
      by blast
    have "(CExists tracts_Clip, g1) \<in> set (fst (script L x s))"
      by (simp add: script_log l l2)
    moreover have "map fst (fst (script L x s)) = expected_calls b1 b2 x"
      by (simp add: script_log rs b l l1 l2 expected_calls_def)
    ultimately show ?thesis using e1 e2 by blast
  qed
  have initial: "\<exists>b1 b2 rest. expected_calls b1 b2 x = map fst (fst (script L x s)) @ rest"
  proof (cases "snd (guarded_delete L major_roads_Buffer s)")
    case (Inl e)
    then have "expected_calls (lib_exists L major_roads_Buffer s = Inr True) False x =
        map fst (fst (script L x s)) @
          [CExists tracts_Clip,
           CBuffer major_roads major_roads_Buffer (x @ '' Miles'')
             ''FULL'' ''ROUND'' ''ALL'' '''' ''PLANAR'',
           CClip tracts major_roads_Buffer tracts_Clip '''']"
      by (simp add: script_log remove_stale_def fst_and_then snd_and_then
            guarded_delete_calls expected_calls_def)
    then show ?thesis by blast
  next
    case (Inr v)
    obtain g1 where v: "v = ((), g1)" by (cases v) simp
    show ?thesis
    proof (cases "snd (guarded_delete L tracts_Clip g1)")
      case (Inl e)
      with Inr v have "expected_calls (lib_exists L major_roads_Buffer s = Inr True)
            (lib_exists L tracts_Clip g1 = Inr True) x =
          map fst (fst (script L x s)) @
            [CBuffer major_roads major_roads_Buffer (x @ '' Miles'')
               ''FULL'' ''ROUND'' ''ALL'' '''' ''PLANAR'',
             CClip tracts major_roads_Buffer tracts_Clip '''']"
        by (simp add: script_log remove_stale_def fst_and_then snd_and_then
              guarded_delete_calls expected_calls_def)
      then show ?thesis by blast
    next
      case d2: (Inr w)
      obtain g where w: "w = ((), g)" by (cases w) simp
      from Inr v d2 w have "expected_calls (lib_exists L major_roads_Buffer s = Inr True)
            (lib_exists L tracts_Clip g1 = Inr True) x =
          map fst (fst (script L x s)) @
            (case lib_buffer L major_roads major_roads_Buffer (x @ '' Miles'')
                    ''FULL'' ''ROUND'' ''ALL'' '''' ''PLANAR'' g of
               Inl e \<Rightarrow> [CClip tracts major_roads_Buffer tracts_Clip '''']
             | Inr g' \<Rightarrow> [])"
        by (simp add: script_log remove_stale_def fst_and_then snd_and_then
              guarded_delete_calls expected_calls_def split: sum.splits)
      then show ?thesis by blast
    qed
  qed
  from complete initial show ?thesis by blast
qed

text \<open>The theorem at work on the sample library.\<close>

theorem c1_call_sequence_witness:
  "\<exists>s'. snd (script sample_lib ''5'' stale_gdb) = Inr ((), s')
     \<and> map fst (fst (script sample_lib ''5'' stale_gdb)) = expected_calls True True ''5''
     \<and> (\<exists>b1 b2. map fst (fst (script sample_lib ''5'' stale_gdb)) = expected_calls b1 b2 ''5'')"
proof -
  obtain s' where run: "snd (script sample_lib ''5'' stale_gdb) = Inr ((), s')"
    by (simp add: run_simps)
  have calls: "map fst (fst (script sample_lib ''5'' stale_gdb)) = expected_calls True True ''5''"
    by (simp add: run_simps expected_calls_def)
  from c1_call_sequence[of sample_lib "''5''" stale_gdb] run
  have "\<exists>b1 b2. map fst (fst (script sample_lib ''5'' stale_gdb)) = expected_calls b1 b2 ''5''"
    by blast
  with run calls show ?thesis by blast
qed

text \<open>
  A run in which a call fails does not perform the whole sequence: with the sample
  library and the parameter \<open>abc\<close> the buffer call is rejected, and the clip call is
  never issued.
\<close>

theorem c1_failed_buffer_skips_clip:
  "map fst (fst (script sample_lib ''abc'' fresh_gdb)) =
     [CExists major_roads_Buffer, CExists tracts_Clip,
      CBuffer major_roads major_roads_Buffer ''abc Miles'' ''FULL'' ''ROUND'' ''ALL'' '''' ''PLANAR'']
   \<and> CClip tracts major_roads_Buffer tracts_Clip ''''
        \<notin> set (map fst (fst (script sample_lib ''abc'' fresh_gdb)))
   \<and> snd (script sample_lib ''abc'' fresh_gdb) = Inl ''malformed distance''"
  by (simp add: run_simps)

text \<open>
  Claim C2. In a run that completes, the dataset left at \<open>tracts_Clip\<close> is the clip of
  the \<open>tracts\<close> dataset by the buffer of the \<open>major_roads\<close> dataset at the distance
  \<open>inputdata\<close> followed by \<open>Miles\<close>, both datasets as they were when the run started.
  Here \<open>buf\<close> and \<open>clp\<close> are the library's buffer and clip on datasets; what a clip
  contains geometrically (only geometry of its first argument that lies within its
  second) is the meaning of \<open>clp\<close> in the library.
\<close>

theorem c2_clip_of_buffer:
  assumes "delete_sound L" "buffer_computes L buf" "clip_computes L clp"
    and "snd (script L x s) = Inr (u, s')"
  shows "\<exists>t r. s tracts = Some t \<and> s major_roads = Some r
           \<and> s' tracts_Clip =
               Some (clp t (buf r (x @ '' Miles'') ''FULL'' ''ROUND'' ''ALL'' '''' ''PLANAR'') '''')"
proof -
  from script_success[OF assms(4)] obtain g g' where
    rs: "snd (remove_stale L s) = Inr ((), g)" and
    b: "lib_buffer L major_roads major_roads_Buffer (x @ '' Miles'')
          ''FULL'' ''ROUND'' ''ALL'' '''' ''PLANAR'' g = Inr g'" and
    c: "lib_clip L tracts major_roads_Buffer tracts_Clip '''' g' = Inr s'"
    by blast
  from assms(2) b obtain r where
    r: "g major_roads = Some r" and
    g': "g' = g(major_roads_Buffer \<mapsto> buf r (x @ '' Miles'') ''FULL'' ''ROUND'' ''ALL'' '''' ''PLANAR'')"
    unfolding buffer_computes_def by blast
  from assms(3) c obtain t bf where
    t: "g' tracts = Some t" and bf: "g' major_roads_Buffer = Some bf" and
    s': "s' = g'(tracts_Clip \<mapsto> clp t bf '''')"
    unfolding clip_computes_def by blast
  from g' bf have bf_eq: "bf = buf r (x @ '' Miles'') ''FULL'' ''ROUND'' ''ALL'' '''' ''PLANAR''"
    by simp
  from g' t paths_distinct have "g tracts = Some t" by simp
  with remove_stale_frame[OF assms(1) rs, of tracts] paths_distinct
  have st: "s tracts = Some t" by simp
  from remove_stale_frame[OF assms(1) rs, of major_roads] paths_distinct r
  have sr: "s major_roads = Some r" by simp
  from s' bf_eq st sr show ?thesis by simp
qed

text \<open>The theorem at work on the sample library.\<close>

theorem c2_clip_of_buffer_witness:
  "\<exists>s'. snd (script sample_lib ''5'' stale_gdb) = Inr ((), s')
     \<and> s' tracts_Clip = Some (Clipped (Layer ''tracts'')
          (Buffered (Layer ''major_roads'') ''5 Miles'' ''FULL'' ''ROUND'' ''ALL'' '''' ''PLANAR'')
          '''')"
proof -
  obtain s' where run: "snd (script sample_lib ''5'' stale_gdb) = Inr ((), s')"
    by (simp add: run_simps)
  from c2_clip_of_buffer[OF sample_delete_sound sample_buffer_computes sample_clip_computes run]
  have "s' tracts_Clip = Some (Clipped (Layer ''tracts'')
          (Buffered (Layer ''major_roads'') ''5 Miles'' ''FULL'' ''ROUND'' ''ALL'' '''' ''PLANAR'')
          '''')"
    by (simp add: stale_gdb_lookup)
  with run show ?thesis by blast
qed

text \<open>
  Claim C3. Whatever the geodatabase held when the run started (in particular when it
  held old outputs), at the moment a buffer or clip call is issued the dataset that
  call creates is absent from the geodatabase.
\<close>

theorem c3_outputs_absent_before_creation:
  assumes "exists_sound L" "delete_sound L" "buffer_frame L"
    and "(c, st) \<in> set (fst (script L x s))" and "creates c = Some p"
  shows "p \<notin> dom st"
proof (cases "snd (remove_stale L s)")
  case (Inl e)
  with assms(4) have "(c, st) \<in> set (fst (remove_stale L s))" by (simp add: script_log)
  from remove_stale_log[OF this] assms(5) show ?thesis by auto
next
  case (Inr v)
  obtain u g where v: "v = (u, g)" by (cases v)
  from remove_stale_result[OF assms(1,2)] Inr v
  have g: "g = s(major_roads_Buffer := None, tracts_Clip := None)" by simp
  from assms(4) Inr v consider
      (stale) "(c, st) \<in> set (fst (remove_stale L s))"
    | (buf) "c = CBuffer major_roads major_roads_Buffer (x @ '' Miles'')
                  ''FULL'' ''ROUND'' ''ALL'' '''' ''PLANAR''" "st = g"
    | (clip) "c = CClip tracts major_roads_Buffer tracts_Clip ''''"
        "lib_buffer L major_roads major_roads_Buffer (x @ '' Miles'')
           ''FULL'' ''ROUND'' ''ALL'' '''' ''PLANAR'' g = Inr st"
    by (auto simp: script_log split: sum.splits)
  then show ?thesis
  proof cases
    case stale
    from remove_stale_log[OF this] assms(5) show ?thesis by auto
  next
    case buf
    with assms(5) g show ?thesis by (simp add: domIff)
  next
    case clip
    from buffer_frameD[OF assms(3) clip(2), of tracts_Clip] paths_distinct
    have "st tracts_Clip = g tracts_Clip" by simp
    with clip(1) assms(5) g show ?thesis by (auto simp: domIff)
  qed
qed

text \<open>The theorem at work on the sample library.\<close>

theorem c3_outputs_absent_before_creation_witness:
  "tracts_Clip \<in> dom stale_gdb
   \<and> (\<exists>st. (CClip tracts major_roads_Buffer tracts_Clip '''', st)
              \<in> set (fst (script sample_lib ''5'' stale_gdb))
          \<and> tracts_Clip \<notin> dom st)"
proof -
  obtain st where mem: "(CClip tracts major_roads_Buffer tracts_Clip '''', st)
       \<in> set (fst (script sample_lib ''5'' stale_gdb))"
    by (simp add: run_simps)
  from c3_outputs_absent_before_creation[OF sample_exists_sound sample_delete_sound
      sample_buffer_frame mem, of tracts_Clip]
  have "tracts_Clip \<notin> dom st" by simp
  with mem show ?thesis by (auto simp: stale_gdb_lookup domIff)
qed

text \<open>
  Claim C4. For every value of \<open>inputdata\<close>, a buffer call of the run is the call
  with input \<open>major_roads\<close>, output \<open>major_roads_Buffer\<close>, distance expression
  \<open>inputdata\<close> followed by \<open>Miles\<close>, side \<open>FULL\<close>, end caps \<open>ROUND\<close>, dissolve
  option \<open>ALL\<close>, no dissolve field and method \<open>PLANAR\<close>; and it is issued as soon as
  the two guarded deletes have returned, on the geodatabase they left.
\<close>

theorem c4_buffer_arguments:
  "(\<forall>c st. (c, st) \<in> set (fst (script L x s)) \<longrightarrow> is_buffer c \<longrightarrow>
       c = CBuffer major_roads major_roads_Buffer (x @ '' Miles'')
             ''FULL'' ''ROUND'' ''ALL'' '''' ''PLANAR'')
   \<and> (\<forall>u g. snd (remove_stale L s) = Inr (u, g) \<longrightarrow>
        (CBuffer major_roads major_roads_Buffer (x @ '' Miles'')
           ''FULL'' ''ROUND'' ''ALL'' '''' ''PLANAR'', g) \<in> set (fst (script L x s)))"
proof (intro conjI allI impI)
  fix c st
  assume "(c, st) \<in> set (fst (script L x s))" and b: "is_buffer c"
  then have "(c, st) \<in> set (fst (remove_stale L s))
     \<or> c = CBuffer major_roads major_roads_Buffer (x @ '' Miles'')
             ''FULL'' ''ROUND'' ''ALL'' '''' ''PLANAR''
     \<or> c = CClip tracts major_roads_Buffer tracts_Clip ''''"
    by (auto simp: script_log split: sum.splits)
  with b remove_stale_log[of c st L s]
  show "c = CBuffer major_roads major_roads_Buffer (x @ '' Miles'')
             ''FULL'' ''ROUND'' ''ALL'' '''' ''PLANAR''"
    by auto
next
  fix u g
  assume "snd (remove_stale L s) = Inr (u, g)"
  then show "(CBuffer major_roads major_roads_Buffer (x @ '' Miles'')
           ''FULL'' ''ROUND'' ''ALL'' '''' ''PLANAR'', g) \<in> set (fst (script L x s))"
    by (simp add: script_log)
qed

text \<open>The theorem at work on the sample library.\<close>

theorem c4_buffer_arguments_witness:
  "snd (remove_stale sample_lib fresh_gdb) = Inr ((), fresh_gdb)
   \<and> (CBuffer major_roads major_roads_Buffer ''5 Miles'' ''FULL'' ''ROUND'' ''ALL'' '''' ''PLANAR'',
       fresh_gdb) \<in> set (fst (script sample_lib ''5'' fresh_gdb))"
proof -
  have rs: "snd (remove_stale sample_lib fresh_gdb) = Inr ((), fresh_gdb)"
    by (simp add: run_simps)
  from c4_buffer_arguments[of sample_lib "''5''" fresh_gdb] rs show ?thesis
    by simp
qed

text \<open>
  Claim C5. The library operations are functions of their arguments and the
  geodatabase. When the script is run twice in succession with the same parameter and
  both runs complete, the second run leaves at \<open>major_roads_Buffer\<close> and at
  \<open>tracts_Clip\<close> the datasets the first run left there.
\<close>

theorem c5_rerun_same_outputs:
  assumes "exists_sound L" "delete_sound L" "buffer_frame L" "clip_frame L"
    and "snd (script L x s0) = Inr (u1, s1)"
    and "snd (script L x s1) = Inr (u2, s2)"
  shows "s2 major_roads_Buffer = s1 major_roads_Buffer \<and> s2 tracts_Clip = s1 tracts_Clip"
proof -
  from script_success[OF assms(5)] obtain g g' where
    rs1: "snd (remove_stale L s0) = Inr ((), g)" and
    b1: "lib_buffer L major_roads major_roads_Buffer (x @ '' Miles'')
          ''FULL'' ''ROUND'' ''ALL'' '''' ''PLANAR'' g = Inr g'" and
    c1: "lib_clip L tracts major_roads_Buffer tracts_Clip '''' g' = Inr s1"
    by blast
  from script_success[OF assms(6)] obtain h h' where
    rs2: "snd (remove_stale L s1) = Inr ((), h)" and
    b2: "lib_buffer L major_roads major_roads_Buffer (x @ '' Miles'')
          ''FULL'' ''ROUND'' ''ALL'' '''' ''PLANAR'' h = Inr h'" and
    c2: "lib_clip L tracts major_roads_Buffer tracts_Clip '''' h' = Inr s2"
    by blast
  have g: "g = s0(major_roads_Buffer := None, tracts_Clip := None)"
    by (rule remove_stale_result[OF assms(1,2) rs1])
  have h: "h = s1(major_roads_Buffer := None, tracts_Clip := None)"
    by (rule remove_stale_result[OF assms(1,2) rs2])
  have "h q = g q" for q
  proof (cases "q = major_roads_Buffer \<or> q = tracts_Clip")
    case True
    with g h show ?thesis by auto
  next
    case False
    then have "s1 q = g' q" using clip_frameD[OF assms(4) c1, of q] by simp
    also have "g' q = g q" using False buffer_frameD[OF assms(3) b1, of q] by simp
    finally show ?thesis using False h by simp
  qed
  then have "h = g" by (simp add: fun_eq_iff)
  with b1 b2 have "h' = g'" by simp
  with c1 c2 have "s2 = s1" by simp
  then show ?thesis by simp
qed

text \<open>The theorem at work on the sample library.\<close>

theorem c5_rerun_same_outputs_witness:
  "\<exists>s1 s2. snd (script sample_lib ''5'' stale_gdb) = Inr ((), s1)
     \<and> snd (script sample_lib ''5'' s1) = Inr ((), s2)
     \<and> s2 major_roads_Buffer = s1 major_roads_Buffer
     \<and> s2 tracts_Clip = s1 tracts_Clip"
proof -
  obtain s1 where run1: "snd (script sample_lib ''5'' stale_gdb) = Inr ((), s1)"
    and look: "s1 tracts = Some (Layer ''tracts'')" "s1 major_roads = Some (Layer ''major_roads'')"
      "s1 major_roads_Buffer \<noteq> None" "s1 tracts_Clip \<noteq> None"
    by (simp add: run_simps)
  obtain s2 where run2: "snd (script sample_lib ''5'' s1) = Inr ((), s2)"
    using look by (auto simp: run_simps)
  from c5_rerun_same_outputs[OF sample_exists_sound sample_delete_sound sample_buffer_frame
      sample_clip_frame run1 run2] run1 run2
  show ?thesis by blast
qed

text \<open>
  Claim C6. When a call of the run fails, it is the last call of the run and the run
  ends with the very error the library raised; and a run that ends with an error ends
  with the error its last call raised. The script raises no error of its own, catches
  none and retries nothing.
\<close>

theorem c6_failure_ends_run:
  "(\<forall>pre c st post e.
      fst (script L x s) = pre @ (c, st) # post \<longrightarrow> failure L c st = Some e \<longrightarrow>
      post = [] \<and> snd (script L x s) = Inl e)
   \<and> (\<forall>e. snd (script L x s) = Inl e \<longrightarrow>
        (\<exists>pre c st. fst (script L x s) = pre @ [(c, st)] \<and> failure L c st = Some e))"
proof -
  have first: "post = [] \<and> snd (script L x s) = Inl e"
    if log: "fst (script L x s) = pre @ (c, st) # post" and f: "failure L c st = Some e"
    for pre c st post e
  proof (cases "snd (script L x s)")
    case (Inr v)
    with stops_script[of L x s] log f show ?thesis
      by (auto simp: stops_at_failure_def clean_def)
  next
    case (Inl e')
    with stops_script[of L x s] obtain l' c' st' where
      l: "fst (script L x s) = l' @ [(c', st')]" and cl: "clean L l'" and
      f': "failure L c' st' = Some e'"
      by (auto simp: stops_at_failure_def)
    show ?thesis
    proof (cases post rule: rev_cases)
      case Nil
      with log l f f' Inl show ?thesis by simp
    next
      case (snoc ys y)
      with log l have "l' = pre @ (c, st) # ys" by simp
      with cl f show ?thesis by (simp add: clean_def)
    qed
  qed
  have last: "\<exists>pre c st. fst (script L x s) = pre @ [(c, st)] \<and> failure L c st = Some e"
    if "snd (script L x s) = Inl e" for e
    using that stops_script[of L x s] by (auto simp: stops_at_failure_def)
  from first last show ?thesis by blast
qed

text \<open>The theorem at work on the sample library.\<close>

theorem c6_failure_ends_run_witness:
  "fst (script sample_lib ''abc'' fresh_gdb) =
     [(CExists major_roads_Buffer, fresh_gdb), (CExists tracts_Clip, fresh_gdb)]
     @ (CBuffer major_roads major_roads_Buffer ''abc Miles'' ''FULL'' ''ROUND'' ''ALL'' '''' ''PLANAR'',
        fresh_gdb) # []
   \<and> failure sample_lib
        (CBuffer major_roads major_roads_Buffer ''abc Miles'' ''FULL'' ''ROUND'' ''ALL'' '''' ''PLANAR'')
        fresh_gdb = Some ''malformed distance''
   \<and> snd (script sample_lib ''abc'' fresh_gdb) = Inl ''malformed distance''"
proof -
  have log: "fst (script sample_lib ''abc'' fresh_gdb) =
     [(CExists major_roads_Buffer, fresh_gdb), (CExists tracts_Clip, fresh_gdb)]
     @ (CBuffer major_roads major_roads_Buffer ''abc Miles'' ''FULL'' ''ROUND'' ''ALL'' '''' ''PLANAR'',
        fresh_gdb) # []"
    by (simp add: run_simps)
  have f: "failure sample_lib
        (CBuffer major_roads major_roads_Buffer ''abc Miles'' ''FULL'' ''ROUND'' ''ALL'' '''' ''PLANAR'')
        fresh_gdb = Some ''malformed distance''"
    by (simp add: run_simps)
  from c6_failure_ends_run[of sample_lib "''abc''" fresh_gdb] log f
  have "snd (script sample_lib ''abc'' fresh_gdb) = Inl ''malformed distance''"
    by blast
  with log f show ?thesis by blast
qed

text \<open>
  Claim C7. Every call of the run that deletes or creates a dataset names
  \<open>major_roads_Buffer\<close> or \<open>tracts_Clip\<close>, neither of which is \<open>tracts\<close> or
  \<open>major_roads\<close>; so with a library whose operations change only the dataset they
  name, \<open>tracts\<close> and \<open>major_roads\<close> are the same on every geodatabase a call is
  issued on, and on the final one, as when the run started.
\<close>

theorem c7_inputs_untouched:
  "(\<forall>c st p. (c, st) \<in> set (fst (script L x s)) \<longrightarrow> mutates c = Some p \<longrightarrow>
        p = major_roads_Buffer \<or> p = tracts_Clip)
   \<and> tracts \<notin> {major_roads_Buffer, tracts_Clip}
   \<and> major_roads \<notin> {major_roads_Buffer, tracts_Clip}
   \<and> (delete_sound L \<longrightarrow> buffer_frame L \<longrightarrow> clip_frame L \<longrightarrow>
        (\<forall>c st. (c, st) \<in> set (fst (script L x s)) \<longrightarrow>
           st tracts = s tracts \<and> st major_roads = s major_roads)
        \<and> (\<forall>u s'. snd (script L x s) = Inr (u, s') \<longrightarrow>
             s' tracts = s tracts \<and> s' major_roads = s major_roads))"
proof -
  have calls: "p = major_roads_Buffer \<or> p = tracts_Clip"
    if "(c, st) \<in> set (fst (script L x s))" and "mutates c = Some p" for c st p
    using script_calls[OF that(1)] that(2) by auto
  have frame: "(\<forall>c st. (c, st) \<in> set (fst (script L x s)) \<longrightarrow>
           st tracts = s tracts \<and> st major_roads = s major_roads)
        \<and> (\<forall>u s'. snd (script L x s) = Inr (u, s') \<longrightarrow>
             s' tracts = s tracts \<and> s' major_roads = s major_roads)"
    if c: "delete_sound L" "buffer_frame L" "clip_frame L"
    using script_frame[OF c, of tracts x s] script_frame[OF c, of major_roads x s]
      paths_distinct
    by simp
  from calls frame paths_distinct show ?thesis by blast
qed

text \<open>The theorem at work on the sample library.\<close>

theorem c7_inputs_untouched_witness:
  "\<exists>s'. snd (script sample_lib ''5'' stale_gdb) = Inr ((), s')
     \<and> s' tracts = stale_gdb tracts \<and> s' major_roads = stale_gdb major_roads"
proof -
  obtain s' where run: "snd (script sample_lib ''5'' stale_gdb) = Inr ((), s')"
    by (simp add: run_simps)
  from c7_inputs_untouched[of sample_lib "''5''" stale_gdb]
    sample_delete_sound sample_buffer_frame sample_clip_frame run
  show ?thesis by blast
qed

text \<open>
  Claim C8. Take two runs from the same geodatabase with parameters \<open>x\<close> and
  \<open>y\<close>. Every call of a run names only the four fixed identifiers. With the
  distance expression blanked, the two sequences of calls are the same, or one is the
  other followed by the clip call (issued in the run whose buffer call returned); they
  are the same when both runs complete.
\<close>

theorem c8_parameter_only_in_distance:
  "(\<forall>c st. (c, st) \<in> set (fst (script L x s)) \<longrightarrow>
       set (paths_of c) \<subseteq> {tracts, major_roads, major_roads_Buffer, tracts_Clip})
   \<and> (map (erase_distance \<circ> fst) (fst (script L x s)) =
          map (erase_distance \<circ> fst) (fst (script L y s))
      \<or> map (erase_distance \<circ> fst) (fst (script L x s)) =
          map (erase_distance \<circ> fst) (fst (script L y s))
          @ [CClip tracts major_roads_Buffer tracts_Clip '''']
      \<or> map (erase_distance \<circ> fst) (fst (script L y s)) =
          map (erase_distance \<circ> fst) (fst (script L x s))
          @ [CClip tracts major_roads_Buffer tracts_Clip ''''])
   \<and> (\<forall>u s' v t'. snd (script L x s) = Inr (u, s') \<longrightarrow> snd (script L y s) = Inr (v, t') \<longrightarrow>
          map (erase_distance \<circ> fst) (fst (script L x s)) =
          map (erase_distance \<circ> fst) (fst (script L y s)))"
proof -
  have names: "set (paths_of c) \<subseteq> {tracts, major_roads, major_roads_Buffer, tracts_Clip}"
    if "(c, st) \<in> set (fst (script L x s))" for c st
    using script_calls[OF that] by auto
  have near: "map (erase_distance \<circ> fst) (fst (script L x s)) =
          map (erase_distance \<circ> fst) (fst (script L y s))
      \<or> map (erase_distance \<circ> fst) (fst (script L x s)) =
          map (erase_distance \<circ> fst) (fst (script L y s))
          @ [CClip tracts major_roads_Buffer tracts_Clip '''']
      \<or> map (erase_distance \<circ> fst) (fst (script L y s)) =
          map (erase_distance \<circ> fst) (fst (script L x s))
          @ [CClip tracts major_roads_Buffer tracts_Clip '''']"
    by (simp add: script_log split: sum.splits prod.splits)
  have same: "map (erase_distance \<circ> fst) (fst (script L x s)) =
          map (erase_distance \<circ> fst) (fst (script L y s))"
    if "snd (script L x s) = Inr (u, s')" and "snd (script L y s) = Inr (v, t')" for u s' v t'
    using script_success[OF that(1)] script_success[OF that(2)]
    by (auto simp: script_log)
  from names near same show ?thesis by blast
qed

text \<open>The theorem at work on the sample library.\<close>

theorem c8_parameter_only_in_distance_witness:
  "(\<exists>s'. snd (script sample_lib ''5'' fresh_gdb) = Inr ((), s'))
   \<and> (\<exists>t'. snd (script sample_lib ''7'' fresh_gdb) = Inr ((), t'))
   \<and> map (erase_distance \<circ> fst) (fst (script sample_lib ''5'' fresh_gdb)) =
       map (erase_distance \<circ> fst) (fst (script sample_lib ''7'' fresh_gdb))"
proof -
  obtain s' where r1: "snd (script sample_lib ''5'' fresh_gdb) = Inr ((), s')"
    by (simp add: run_simps)
  obtain t' where r2: "snd (script sample_lib ''7'' fresh_gdb) = Inr ((), t')"
    by (simp add: run_simps)
  from c8_parameter_only_in_distance[of sample_lib "''5''" fresh_gdb "''7''"] r1 r2
  show ?thesis by blast
qed

text \<open>
  The parameter does decide whether the clip call is issued, and so whether \<open>tracts\<close>
  is read: with the sample library the run with \<open>5\<close> reads it and the run with
  \<open>abc\<close>, whose buffer call is rejected, does not.
\<close>

theorem c8_parameter_decides_clip:
  "map (erase_distance \<circ> fst) (fst (script sample_lib ''5'' fresh_gdb))
     \<noteq> map (erase_distance \<circ> fst) (fst (script sample_lib ''abc'' fresh_gdb))
   \<and> tracts \<in> set (concat (map (paths_of \<circ> fst) (fst (script sample_lib ''5'' fresh_gdb))))
   \<and> tracts \<notin> set (concat (map (paths_of \<circ> fst) (fst (script sample_lib ''abc'' fresh_gdb))))"
  by (simp add: run_simps)

text \<open>
  Claim C9. The script does not validate the parameter: for every string
  \<open>inputdata\<close>, once the two guarded deletes have returned, the buffer call is issued
  with the distance expression \<open>inputdata\<close> followed by \<open>Miles\<close> (for the empty
  string, the expression \<open>Miles\<close> after a blank); if the library rejects the call the
  run ends with the library's error, and if it accepts it the clip call follows.
\<close>

theorem c9_no_validation:
  assumes "snd (remove_stale L s) = Inr (u, g)"
  shows "(CBuffer major_roads major_roads_Buffer (x @ '' Miles'')
            ''FULL'' ''ROUND'' ''ALL'' '''' ''PLANAR'', g) \<in> set (fst (script L x s))
       \<and> (x = [] \<longrightarrow>
            (CBuffer major_roads major_roads_Buffer '' Miles''
               ''FULL'' ''ROUND'' ''ALL'' '''' ''PLANAR'', g) \<in> set (fst (script L x s)))
       \<and> (\<forall>e. lib_buffer L major_roads major_roads_Buffer (x @ '' Miles'')
                 ''FULL'' ''ROUND'' ''ALL'' '''' ''PLANAR'' g = Inl e
              \<longrightarrow> snd (script L x s) = Inl e)
       \<and> (\<forall>g'. lib_buffer L major_roads major_roads_Buffer (x @ '' Miles'')
                  ''FULL'' ''ROUND'' ''ALL'' '''' ''PLANAR'' g = Inr g'
              \<longrightarrow> (CClip tracts major_roads_Buffer tracts_Clip '''', g') \<in> set (fst (script L x s)))"
  using assms by (auto simp: script_log script_result)

text \<open>The theorem at work on the sample library.\<close>

theorem c9_no_validation_witness:
  "snd (remove_stale sample_lib fresh_gdb) = Inr ((), fresh_gdb)
   \<and> (CBuffer major_roads major_roads_Buffer '' Miles'' ''FULL'' ''ROUND'' ''ALL'' '''' ''PLANAR'',
       fresh_gdb) \<in> set (fst (script sample_lib [] fresh_gdb))
   \<and> snd (script sample_lib [] fresh_gdb) = Inl ''malformed distance''"
proof -
  have rs: "snd (remove_stale sample_lib fresh_gdb) = Inr ((), fresh_gdb)"
    by (simp add: run_simps)
  have rej: "lib_buffer sample_lib major_roads major_roads_Buffer ([] @ '' Miles'')
      ''FULL'' ''ROUND'' ''ALL'' '''' ''PLANAR'' fresh_gdb = Inl ''malformed distance''"
    by (simp add: run_simps)
  from c9_no_validation[OF rs, of "[]"] rej rs show ?thesis by simp
qed

text \<open>
  Claim C10. Every delete call of the run comes immediately after an existence check
  of the same identifier on the same geodatabase, which answered true; with an
  existence check that tells the truth, the dataset is there when the delete is issued.
\<close>

theorem c10_delete_guarded:
  "fst (script L x s) = pre @ (CDelete p k, st) # post \<Longrightarrow>
     (\<exists>pre'. pre = pre' @ [(CExists p, st)]) \<and> lib_exists L p st = Inr True
     \<and> (exists_sound L \<longrightarrow> p \<in> dom st)"
  unfolding script_def prog_defs
  by (auto split: sum.splits prod.splits if_splits simp: Cons_eq_append_conv
        dest: exists_soundD)

text \<open>The theorem at work on the sample library.\<close>

theorem c10_delete_guarded_witness:
  "\<exists>post. fst (script sample_lib ''5'' stale_gdb) =
       [(CExists major_roads_Buffer, stale_gdb)]
       @ (CDelete major_roads_Buffer ''FeatureClass'', stale_gdb) # post
     \<and> lib_exists sample_lib major_roads_Buffer stale_gdb = Inr True
     \<and> major_roads_Buffer \<in> dom stale_gdb"
proof -
  obtain post where log: "fst (script sample_lib ''5'' stale_gdb) =
       [(CExists major_roads_Buffer, stale_gdb)]
       @ (CDelete major_roads_Buffer ''FeatureClass'', stale_gdb) # post"
    by (simp add: run_simps)
  from c10_delete_guarded[OF log] sample_exists_sound log show ?thesis by blast
qed

end
